theory Spec2Isabelle
  imports Complex_Main "HOL-Library.Word"
begin

section \<open>The item store of server.js\<close>

subsection \<open>JavaScript values\<close>

text \<open>
  The values that \<open>express.json()\<close> hands to the handlers: the result of parsing a JSON
  text, and \<open>undefined\<close> for a property that the body does not have. A number is the
  value of the parsed Number.
\<close>

datatype jsvalue =
    JUndefined
  | JNull
  | JBool bool
  | JNum rat
  | JStr string
  | JArr "jsvalue list"
  | JObj "(string \<times> jsvalue) list"

text \<open>
  Truthiness, as \<open>!v\<close> and \<open>v || w\<close> test it: \<open>undefined\<close>, \<open>null\<close>, \<open>false\<close>, zero and
  the empty string are falsy, every other value (arrays and objects too) is truthy.
\<close>

fun truthy :: "jsvalue \<Rightarrow> bool" where
  "truthy JUndefined = False"
| "truthy JNull = False"
| "truthy (JBool b) = b"
| "truthy (JNum q) = (q \<noteq> 0)"
| "truthy (JStr s) = (s \<noteq> [])"
| "truthy (JArr vs) = True"
| "truthy (JObj kvs) = True"

text \<open>\<open>a || b\<close>: the left operand when it is truthy, the right one otherwise.\<close>

definition js_or :: "jsvalue \<Rightarrow> jsvalue \<Rightarrow> jsvalue" where
  "js_or a b = (if truthy a then a else b)"

text \<open>
  The request body \<open>req.body\<close> is the object that \<open>express.json()\<close> parsed, given as
  the list of its properties, each key once (the empty list is \<open>{}\<close>).
  \<open>req.body.k\<close> is the property's value, \<open>undefined\<close> when the body has no such key.
\<close>

type_synonym body = "(string \<times> jsvalue) list"

definition property :: "body \<Rightarrow> string \<Rightarrow> jsvalue" where
  "property b k = (case map_of b k of None \<Rightarrow> JUndefined | Some v \<Rightarrow> v)"

subsection \<open>Items and the store\<close>

text \<open>
  An item \<open>{ id, name, description }\<close>. The ids of the store come from the seed and
  from \<open>generateId\<close> only, so they are integers; they are modelled as mathematical
  integers, which is what Number arithmetic computes below \<open>2^53\<close>. A name and a
  description are whatever value the body carried.
\<close>

record item =
  item_id :: int
  name :: jsvalue
  description :: jsvalue

text \<open>\<open>let items = [...]\<close>: the store at process start.\<close>

definition items0 :: "item list" where
  "items0 =
    [\<lparr>item_id = 1, name = JStr ''Item A'', description = JStr ''Description for Item A''\<rparr>,
     \<lparr>item_id = 2, name = JStr ''Item B'', description = JStr ''Description for Item B''\<rparr>,
     \<lparr>item_id = 3, name = JStr ''Item C'', description = JStr ''Description for Item C''\<rparr>]"

text \<open>
  \<open>generateId\<close>: \<open>items.length > 0 ? Math.max(...items.map(item => item.id)) : 0\<close>, plus
  one. \<open>Math.max\<close> runs over its arguments from left to right.
\<close>

definition generateId :: "item list \<Rightarrow> int" where
  "generateId its =
    (let maxId = (case map item_id its of [] \<Rightarrow> 0 | x # xs \<Rightarrow> fold max xs x)
     in maxId + 1)"

subsection \<open>Responses\<close>

datatype payload =
    Json_items "item list"
  | Json_item item
  | Text string
  | Empty

record response =
  status :: nat
  payload :: payload

subsection \<open>The path parameter and parseInt\<close>

text \<open>
  A JavaScript string is a sequence of 16-bit code units; \<open>req.params.id\<close> is one.
  \<open>js_string\<close> gives the string of an ASCII text, one code unit for each character.
\<close>

type_synonym jsstring = "16 word list"

definition js_string :: "string \<Rightarrow> jsstring" where
  "js_string s = map of_char s"

text \<open>
  \<open>parseInt(req.params.id)\<close> with no radix: leading white space is skipped, then an
  optional sign, then an optional \<open>0x\<close> or \<open>0X\<close> (which makes the radix 16), then the
  longest run of digits of the radix. With no digit the result is \<open>NaN\<close>, here \<open>None\<close>.
  Whatever follows the digits is ignored.

  White space is what the language trims from a string: tab, line feed, vertical tab,
  form feed, carriage return, space, no-break space (U+00A0), U+1680, U+2000 to U+200A,
  the line and paragraph separators U+2028 and U+2029, U+202F, U+205F, U+3000 and the
  byte order mark U+FEFF.
\<close>

definition is_ws :: "16 word \<Rightarrow> bool" where
  "is_ws c =
    (c \<in> {0x9, 0xA, 0xB, 0xC, 0xD, 0x20, 0xA0, 0x1680, 0x2028, 0x2029, 0x202F, 0x205F,
          0x3000, 0xFEFF}
     \<or> (0x2000 \<le> c \<and> c \<le> 0x200A))"

text \<open>
  The value of a code unit as a digit: \<open>0\<close> to \<open>9\<close> (code units 48 to 57) are 0 to 9, the
  letters \<open>a\<close> to \<open>z\<close> (97 to 122) and \<open>A\<close> to \<open>Z\<close> (65 to 90) are 10 to 35, and every
  other code unit is a digit of no radix.
\<close>

definition digit_val :: "16 word \<Rightarrow> nat" where
  "digit_val c =
    (let n = unat c in
     if 48 \<le> n \<and> n \<le> 57 then n - 48
     else if 97 \<le> n \<and> n \<le> 122 then n - 87
     else if 65 \<le> n \<and> n \<le> 90 then n - 55
     else 36)"

definition is_digit :: "nat \<Rightarrow> 16 word \<Rightarrow> bool" where
  "is_digit R c = (digit_val c < R)"

text \<open>The sign: \<open>-\<close> is code unit 45 and \<open>+\<close> is 43.\<close>

definition strip_sign :: "jsstring \<Rightarrow> int \<times> jsstring" where
  "strip_sign s =
    (case s of
       [] \<Rightarrow> (1, s)
     | c # r \<Rightarrow> if c = 45 then (- 1, r) else if c = 43 then (1, r) else (1, s))"

text \<open>The prefix: \<open>0\<close> is code unit 48, \<open>x\<close> is 120 and \<open>X\<close> is 88.\<close>

definition strip_prefix :: "jsstring \<Rightarrow> nat \<times> jsstring" where
  "strip_prefix s =
    (case s of
       c # x # r \<Rightarrow>
         if c = 48 \<and> (x = 120 \<or> x = 88) then (16, r) else (10, s)
     | _ \<Rightarrow> (10, s))"

definition digits_value :: "nat \<Rightarrow> jsstring \<Rightarrow> nat" where
  "digits_value R ds = foldl (\<lambda>a c. a * R + digit_val c) 0 ds"

definition parseInt :: "jsstring \<Rightarrow> int option" where
  "parseInt s =
    (let (sign, s2) = strip_sign (dropWhile is_ws s);
         (R, s3) = strip_prefix s2;
         ds = takeWhile (is_digit R) s3
     in if ds = [] then None else Some (sign * int (digits_value R ds)))"

text \<open>\<open>i.id === id\<close>: \<open>NaN\<close> is equal to no id.\<close>

fun id_eq :: "int option \<Rightarrow> item \<Rightarrow> bool" where
  "id_eq None i = False"
| "id_eq (Some n) i = (item_id i = n)"

text \<open>\<open>Array.prototype.findIndex\<close>: the first index whose element passes, \<open>-1\<close> (here \<open>None\<close>) when there is none.\<close>

fun findIndex :: "('a \<Rightarrow> bool) \<Rightarrow> 'a list \<Rightarrow> nat option" where
  "findIndex P [] = None"
| "findIndex P (x # xs) =
    (if P x then Some 0 else (case findIndex P xs of None \<Rightarrow> None | Some i \<Rightarrow> Some (Suc i)))"

subsection \<open>The five handlers\<close>

text \<open>Each handler takes the store and the request's data, and returns the response and the store after it.\<close>

definition not_found :: response where
  "not_found = \<lparr>status = 404, payload = Text ''Item not found''\<rparr>"

definition get_items :: "item list \<Rightarrow> response \<times> item list" where
  "get_items its = (\<lparr>status = 200, payload = Json_items its\<rparr>, its)"

definition get_item :: "item list \<Rightarrow> jsstring \<Rightarrow> response \<times> item list" where
  "get_item its p =
    (let id = parseInt p in
     case find (id_eq id) its of
       Some it \<Rightarrow> (\<lparr>status = 200, payload = Json_item it\<rparr>, its)
     | None \<Rightarrow> (not_found, its))"

definition post_item :: "item list \<Rightarrow> body \<Rightarrow> response \<times> item list" where
  "post_item its b =
    (if \<not> truthy (property b ''name'')
     then (\<lparr>status = 400, payload = Text ''Name is required to create an item.''\<rparr>, its)
     else
       let newItem = \<lparr>item_id = generateId its,
                      name = property b ''name'',
                      description = js_or (property b ''description'') (JStr ''No description provided'')\<rparr>
       in (\<lparr>status = 201, payload = Json_item newItem\<rparr>, its @ [newItem]))"

text \<open>
  The object literal of the PUT handler,
  \<open>{ ...old, name: req.body.name || old.name, description: req.body.description || old.description }\<close>:
  the spread keeps the id, the two other fields are merged with the body.
\<close>

definition updated_item :: "item \<Rightarrow> body \<Rightarrow> item" where
  "updated_item old b =
    old\<lparr>name := js_or (property b ''name'') (name old),
        description := js_or (property b ''description'') (description old)\<rparr>"

definition put_item :: "item list \<Rightarrow> jsstring \<Rightarrow> body \<Rightarrow> response \<times> item list" where
  "put_item its p b =
    (let id = parseInt p in
     case findIndex (id_eq id) its of
       Some itemIndex \<Rightarrow>
         let its' = its[itemIndex := updated_item (its ! itemIndex) b]
         in (\<lparr>status = 200, payload = Json_item (its' ! itemIndex)\<rparr>, its')
     | None \<Rightarrow> (not_found, its))"

definition delete_item :: "item list \<Rightarrow> jsstring \<Rightarrow> response \<times> item list" where
  "delete_item its p =
    (let id = parseInt p;
         initialLength = length its;
         its' = filter (\<lambda>i. \<not> id_eq id i) its
     in if length its' < initialLength
        then (\<lparr>status = 204, payload = Empty\<rparr>, its')
        else (not_found, its'))"

subsection \<open>Requests and runs\<close>

datatype request =
    GET_items
  | GET_item jsstring
  | POST_item body
  | PUT_item jsstring body
  | DELETE_item jsstring

fun handle :: "item list \<Rightarrow> request \<Rightarrow> response \<times> item list" where
  "handle its GET_items = get_items its"
| "handle its (GET_item p) = get_item its p"
| "handle its (POST_item b) = post_item its b"
| "handle its (PUT_item p b) = put_item its p b"
| "handle its (DELETE_item p) = delete_item its p"

text \<open>The store after a sequence of requests, handled one after the other.\<close>

fun run :: "item list \<Rightarrow> request list \<Rightarrow> item list" where
  "run its [] = its"
| "run its (r # rs) = run (snd (handle its r)) rs"

text \<open>
  A path parameter that is a decimal numeral, one or more decimal digits and nothing
  else. It is used only to say of a parameter that it is not one.
\<close>

definition purely_numeric :: "jsstring \<Rightarrow> bool" where
  "purely_numeric s = (s \<noteq> [] \<and> list_all (is_digit 10) s)"

section \<open>Auxiliary facts\<close>

lemmas parse_defs =
  parseInt_def strip_sign_def strip_prefix_def is_ws_def is_digit_def digit_val_def digits_value_def
  js_string_def

lemma fold_max_Max: "fold max xs (x::int) = Max (set (x # xs))"
  by (rule Max.set_eq_fold [symmetric])

lemma generateId_Nil: "generateId [] = 1"
  by (simp add: generateId_def)

lemma generateId_Max: "its \<noteq> [] \<Longrightarrow> generateId its = 1 + Max (set (map item_id its))"
proof (cases its)
  case Nil
  assume "its \<noteq> []"
  with Nil show ?thesis by simp
next
  case (Cons a list)
  have "generateId its = fold max (map item_id list) (item_id a) + 1"
    by (simp add: generateId_def Cons)
  also have "fold max (map item_id list) (item_id a) = Max (set (item_id a # map item_id list))"
    by (rule fold_max_Max)
  finally show ?thesis by (simp add: Cons)
qed

lemma generateId_gt: "i \<in> set its \<Longrightarrow> item_id i < generateId its"
proof -
  assume i: "i \<in> set its"
  then have ne: "its \<noteq> []" by auto
  have "item_id i \<le> Max (set (map item_id its))"
    using i by (intro Max_ge) auto
  then show ?thesis by (simp add: generateId_Max [OF ne])
qed

lemma generateId_fresh: "generateId its \<notin> item_id ` set its"
  using generateId_gt by fastforce

lemma findIndex_None: "findIndex P xs = None \<longleftrightarrow> (\<forall>x\<in>set xs. \<not> P x)"
  by (induction xs) (auto split: option.splits)

lemma findIndex_Some:
  "findIndex P xs = Some k \<Longrightarrow> k < length xs \<and> P (xs ! k) \<and> (\<forall>j<k. \<not> P (xs ! j))"
proof (induction xs arbitrary: k)
  case Nil
  then show ?case by simp
next
  case (Cons x xs)
  show ?case
  proof (cases "P x")
    case True
    with Cons.prems show ?thesis by simp
  next
    case False
    with Cons.prems obtain k' where k': "findIndex P xs = Some k'" "k = Suc k'"
      by (auto split: option.splits)
    from Cons.IH [OF k'(1)] False k'(2) show ?thesis
      by (auto simp: less_Suc_eq_0_disj)
  qed
qed

lemma findIndex_distinct:
  assumes "distinct (map f xs)" "x \<in> set xs"
  shows "\<exists>k<length xs. xs ! k = x \<and> findIndex (\<lambda>i. f i = f x) xs = Some k"
proof -
  from assms(2) have "\<not> (\<forall>y\<in>set xs. \<not> f y = f x)" by auto
  then obtain k where k: "findIndex (\<lambda>i. f i = f x) xs = Some k"
    using findIndex_None [of "\<lambda>i. f i = f x" xs] by (cases "findIndex (\<lambda>i. f i = f x) xs") auto
  from findIndex_Some [OF k] have kl: "k < length xs" and fk: "f (xs ! k) = f x" by auto
  from kl have "xs ! k \<in> set xs" by simp
  with assms fk have "xs ! k = x"
    by (meson distinct_map inj_onD)
  with kl k show ?thesis by blast
qed

lemma id_eq_Some: "id_eq (Some n) = (\<lambda>i. item_id i = n)"
  by (rule ext) simp

lemma length_filter_distinct:
  assumes "distinct (map f xs)" "x \<in> set xs"
  shows "length xs = Suc (length (filter (\<lambda>i. f i \<noteq> f x) xs))"
  using assms
proof (induction xs)
  case Nil
  then show ?case by simp
next
  case (Cons a xs)
  show ?case
  proof (cases "a = x")
    case True
    with Cons.prems have "f x \<notin> f ` set xs" by simp
    then have "\<forall>i\<in>set xs. f i \<noteq> f x" by (metis imageI)
    then have "filter (\<lambda>i. f i \<noteq> f x) xs = xs" by (simp add: filter_id_conv)
    with True show ?thesis by simp
  next
    case False
    with Cons.prems have x: "x \<in> set xs" and d: "distinct (map f xs)" by auto
    with Cons.prems have "f a \<noteq> f x" by auto
    with Cons.IH [OF d x] show ?thesis by simp
  qed
qed


lemma get_item_found:
  "parseInt p = Some n \<Longrightarrow> find (\<lambda>i. item_id i = n) its = Some it \<Longrightarrow>
   get_item its p = (\<lparr>status = 200, payload = Json_item it\<rparr>, its)"
  by (simp add: get_item_def id_eq_Some)

lemma get_item_missing:
  "\<forall>i\<in>set its. \<not> id_eq (parseInt p) i \<Longrightarrow> get_item its p = (not_found, its)"
proof -
  assume "\<forall>i\<in>set its. \<not> id_eq (parseInt p) i"
  then have "find (id_eq (parseInt p)) its = None" by (simp add: find_None_iff)
  then show ?thesis by (simp add: get_item_def)
qed

lemma put_item_missing:
  "\<forall>i\<in>set its. \<not> id_eq (parseInt p) i \<Longrightarrow> put_item its p b = (not_found, its)"
proof -
  assume "\<forall>i\<in>set its. \<not> id_eq (parseInt p) i"
  then have "findIndex (id_eq (parseInt p)) its = None" by (simp add: findIndex_None)
  then show ?thesis by (simp add: put_item_def)
qed

lemma delete_item_missing:
  "\<forall>i\<in>set its. \<not> id_eq (parseInt p) i \<Longrightarrow> delete_item its p = (not_found, its)"
proof -
  assume "\<forall>i\<in>set its. \<not> id_eq (parseInt p) i"
  then have "filter (\<lambda>i. \<not> id_eq (parseInt p) i) its = its" by (simp add: filter_id_conv)
  then show ?thesis by (simp add: delete_item_def Let_def)
qed

lemma put_item_found:
  assumes "parseInt p = Some n" "findIndex (\<lambda>i. item_id i = n) its = Some k"
  shows "put_item its p b =
    (\<lparr>status = 200, payload = Json_item (updated_item (its ! k) b)\<rparr>, its[k := updated_item (its ! k) b])"
proof -
  from findIndex_Some [OF assms(2)] have "k < length its" by simp
  then show ?thesis
    using assms by (simp add: put_item_def id_eq_Some Let_def)
qed

lemma delete_item_found:
  assumes "parseInt p = Some n" "n \<in> item_id ` set its"
  shows "delete_item its p = (\<lparr>status = 204, payload = Empty\<rparr>, filter (\<lambda>i. item_id i \<noteq> n) its)"
proof -
  from assms(2) obtain x where "x \<in> set its" "\<not> item_id x \<noteq> n" by auto
  then have "length (filter (\<lambda>i. item_id i \<noteq> n) its) < length its"
    by (rule length_filter_less)
  then show ?thesis
    using assms(1) by (simp add: delete_item_def Let_def id_eq_Some)
qed

lemma post_item_created:
  "truthy (property b ''name'') \<Longrightarrow>
   post_item its b =
     (let newItem = \<lparr>item_id = generateId its, name = property b ''name'',
                     description = js_or (property b ''description'') (JStr ''No description provided'')\<rparr>
      in (\<lparr>status = 201, payload = Json_item newItem\<rparr>, its @ [newItem]))"
  by (simp add: post_item_def)

lemma post_item_rejected:
  "\<not> truthy (property b ''name'') \<Longrightarrow>
   post_item its b = (\<lparr>status = 400, payload = Text ''Name is required to create an item.''\<rparr>, its)"
  by (simp add: post_item_def)

lemma post_item_ids:
  "map item_id (snd (post_item its b)) =
    (if truthy (property b ''name'') then map item_id its @ [generateId its] else map item_id its)"
  by (simp add: post_item_def Let_def)

lemma put_item_ids: "map item_id (snd (put_item its p b)) = map item_id its"
proof (cases "findIndex (id_eq (parseInt p)) its")
  case None
  then show ?thesis by (simp add: put_item_def)
next
  case (Some k)
  from findIndex_Some [OF Some] have "k < length its" by simp
  then show ?thesis
    by (simp add: put_item_def Some Let_def map_update list_update_same_conv updated_item_def)
qed

lemma delete_item_ids:
  "map item_id (snd (delete_item its p)) = filter (\<lambda>n. \<not> (parseInt p = Some n)) (map item_id its)"
proof -
  have "(\<lambda>i. \<not> id_eq (parseInt p) i) = (\<lambda>n. \<not> (parseInt p = Some n)) \<circ> item_id"
    by (cases "parseInt p") auto
  then show ?thesis
    by (simp add: delete_item_def Let_def filter_map)
qed

lemma handle_distinct:
  assumes "distinct (map item_id its)"
  shows "distinct (map item_id (snd (handle its r)))"
proof (cases r)
  case GET_items
  with assms show ?thesis by (simp add: get_items_def)
next
  case (GET_item p)
  with assms show ?thesis by (simp add: get_item_def not_found_def split: option.splits)
next
  case (POST_item b)
  with assms generateId_fresh [of its] show ?thesis by (simp add: post_item_ids)
next
  case (PUT_item p b)
  with assms show ?thesis by (simp add: put_item_ids)
next
  case (DELETE_item p)
  with assms show ?thesis by (simp add: delete_item_ids)
qed

lemma run_distinct: "distinct (map item_id its) \<Longrightarrow> distinct (map item_id (run its rs))"
  by (induction rs arbitrary: its) (simp_all add: handle_distinct)

lemma items0_distinct: "distinct (map item_id items0)"
  by (simp add: items0_def)

lemma is_digit_zero: "is_digit 10 48"
  by (simp add: is_digit_def digit_val_def)

lemma strip_sign_set: "strip_sign s = (sg, r) \<Longrightarrow> set r \<subseteq> set s"
  by (auto simp: strip_sign_def split: list.splits if_splits)

lemma strip_prefix_no_zero: "48 \<notin> set s \<Longrightarrow> strip_prefix s = (10, s)"
  by (auto simp: strip_prefix_def split: list.splits)

lemma takeWhile_no_digit: "\<forall>c\<in>set s. \<not> P c \<Longrightarrow> takeWhile P s = []"
  by (cases s) auto

lemma parseInt_no_digit:
  assumes "\<forall>c\<in>set p. \<not> is_digit 10 c"
  shows "parseInt p = None"
proof -
  obtain sg s2 where ss: "strip_sign (dropWhile is_ws p) = (sg, s2)"
    by (cases "strip_sign (dropWhile is_ws p)")
  from strip_sign_set [OF ss] have sub: "set s2 \<subseteq> set p"
    using set_dropWhileD by fastforce
  with assms have nd: "\<forall>c\<in>set s2. \<not> is_digit 10 c" by auto
  with is_digit_zero have "48 \<notin> set s2" by auto
  then have sp: "strip_prefix s2 = (10, s2)" by (rule strip_prefix_no_zero)
  from nd have "takeWhile (is_digit 10) s2 = []" by (rule takeWhile_no_digit)
  with ss sp show ?thesis by (simp add: parseInt_def)
qed

text \<open>
  \<open>parseInt\<close> at a few parameters: white space beyond ASCII is skipped, \<open>0x\<close> makes
  the radix 16, and \<open>0x\<close> with no hexadecimal digit after it is \<open>NaN\<close>.
\<close>

lemma parseInt_white_space:
  "parseInt (0xA0 # js_string ''3'') = Some 3"
  "parseInt ([0xFEFF, 0x2028, 0x2003] @ js_string '' -12'') = Some (- 12)"
  "parseInt (js_string ''0x1A'') = Some 26"
  "parseInt (js_string ''0xg'') = None"
  "parseInt (js_string ''120'') = Some 120"
  by (simp_all add: parse_defs)

lemma find_findIndex:
  "find P xs = Some x \<Longrightarrow> \<exists>k<length xs. xs ! k = x \<and> findIndex P xs = Some k"
proof (induction xs)
  case Nil
  then show ?case by simp
next
  case (Cons a xs)
  show ?case
  proof (cases "P a")
    case True
    with Cons.prems show ?thesis by auto
  next
    case False
    with Cons.prems have "find P xs = Some x" by simp
    from Cons.IH [OF this] obtain k where "k < length xs" "xs ! k = x" "findIndex P xs = Some k"
      by blast
    with False show ?thesis by (intro exI [of _ "Suc k"]) simp
  qed
qed

lemma not_found_eq: "not_found = \<lparr>status = 404, payload = Text ''Item not found''\<rparr>"
  by (simp add: not_found_def)

lemma put_item_present:
  assumes "distinct (map item_id its)" "it \<in> set its" "parseInt p = Some (item_id it)"
  shows "\<exists>k<length its. its ! k = it \<and>
    put_item its p b =
      (\<lparr>status = 200, payload = Json_item (updated_item it b)\<rparr>, its[k := updated_item it b])"
proof -
  from findIndex_distinct [OF assms(1,2)] obtain k where
    k: "k < length its" "its ! k = it" "findIndex (\<lambda>i. item_id i = item_id it) its = Some k"
    by blast
  from put_item_found [OF assms(3) k(3), of b] k(1,2) show ?thesis by auto
qed

lemma delete_item_present:
  assumes "distinct (map item_id its)" "parseInt p = Some n" "n \<in> item_id ` set its"
  shows "\<exists>rest. delete_item its p = (\<lparr>status = 204, payload = Empty\<rparr>, rest) \<and>
           length its = Suc (length rest) \<and>
           delete_item rest p = (\<lparr>status = 404, payload = Text ''Item not found''\<rparr>, rest)"
proof -
  let ?rest = "filter (\<lambda>i. item_id i \<noteq> n) its"
  from assms(3) obtain x where x: "x \<in> set its" "item_id x = n" by auto
  have "length its = Suc (length (filter (\<lambda>i. item_id i \<noteq> item_id x) its))"
    using assms(1) x(1) by (rule length_filter_distinct)
  with x(2) have len: "length its = Suc (length ?rest)" by simp
  have "\<forall>i\<in>set ?rest. \<not> id_eq (parseInt p) i" by (simp add: assms(2))
  then have "delete_item ?rest p = (not_found, ?rest)" by (rule delete_item_missing)
  with delete_item_found [OF assms(2,3)] len show ?thesis
    by (simp add: not_found_eq)
qed

lemma generateId_after_max_delete:
  fixes its :: "item list"
  defines "m \<equiv> Max (set (map item_id its))"
  defines "rest \<equiv> filter (\<lambda>i. item_id i \<noteq> m) its"
  assumes ne: "its \<noteq> []"
  shows "generateId rest = m \<longleftrightarrow> (m - 1 \<in> item_id ` set its \<or> (rest = [] \<and> m = 1))"
proof (cases "rest = []")
  case True
  then have "\<forall>i\<in>set its. item_id i = m"
    by (simp add: rest_def filter_empty_conv)
  then have "m - 1 \<notin> item_id ` set its" by auto
  with True show ?thesis by (auto simp: generateId_Nil)
next
  case False
  let ?R = "set (map item_id rest)"
  have fin: "finite ?R" and neR: "?R \<noteq> {}" using False by auto
  have le: "\<And>i. i \<in> set its \<Longrightarrow> item_id i \<le> m"
    unfolding m_def by (intro Max_ge) auto
  have lt: "\<forall>n\<in>?R. n < m"
    using le by (fastforce simp: rest_def)
  have inR: "Max ?R \<in> ?R" using fin neR by (rule Max_in)
  with lt have Mlt: "Max ?R < m" by blast
  have gen: "generateId rest = 1 + Max ?R" using False by (rule generateId_Max)
  show ?thesis
  proof
    assume "generateId rest = m"
    with gen have "Max ?R = m - 1" by simp
    with inR have "m - 1 \<in> ?R" by simp
    then have "m - 1 \<in> item_id ` set its" by (auto simp: rest_def)
    then show "m - 1 \<in> item_id ` set its \<or> (rest = [] \<and> m = 1)" ..
  next
    assume "m - 1 \<in> item_id ` set its \<or> (rest = [] \<and> m = 1)"
    with False have "m - 1 \<in> item_id ` set its" by simp
    then have "m - 1 \<in> ?R" by (auto simp: rest_def)
    then have "m - 1 \<le> Max ?R" using fin by (intro Max_ge)
    with Mlt gen show "generateId rest = m" by simp
  qed
qed

section \<open>Properties\<close>

text \<open>
  C1. On a store whose ids are exactly 1, 2 and 3, \<open>POST /api/items\<close> with the body
  \<open>{"name": x}\<close>, \<open>x\<close> not empty, answers 201 with the new item: id 4, name \<open>x\<close> and the
  description "No description provided"; the item is appended to the store. On any store
  the allocated id is one more than the largest id, and 1 when the store is empty.
\<close>

theorem create_allocates_next_id:
  "(set (map item_id its) = {1, 2, 3} \<and> x \<noteq> [] \<longrightarrow>
      post_item its [(''name'', JStr x)] =
        (\<lparr>status = 201,
          payload = Json_item \<lparr>item_id = 4, name = JStr x, description = JStr ''No description provided''\<rparr>\<rparr>,
         its @ [\<lparr>item_id = 4, name = JStr x, description = JStr ''No description provided''\<rparr>]))
   \<and> generateId its = (if its = [] then 1 else 1 + Max (set (map item_id its)))
   \<and> (truthy (property b ''name'') \<longrightarrow>
        (\<exists>it. post_item its b = (\<lparr>status = 201, payload = Json_item it\<rparr>, its @ [it]) \<and>
              item_id it = generateId its \<and> name it = property b ''name'' \<and>
              description it =
                (if truthy (property b ''description'') then property b ''description''
                 else JStr ''No description provided'')))"
proof (intro conjI impI)
  assume a: "set (map item_id its) = {1, 2, 3} \<and> x \<noteq> []"
  then have ne: "its \<noteq> []" by auto
  from a have "generateId its = 4"
    by (simp add: generateId_Max [OF ne])
  with a show "post_item its [(''name'', JStr x)] =
        (\<lparr>status = 201,
          payload = Json_item \<lparr>item_id = 4, name = JStr x, description = JStr ''No description provided''\<rparr>\<rparr>,
         its @ [\<lparr>item_id = 4, name = JStr x, description = JStr ''No description provided''\<rparr>])"
    by (simp add: post_item_def property_def js_or_def Let_def)
next
  show "generateId its = (if its = [] then 1 else 1 + Max (set (map item_id its)))"
    by (simp add: generateId_Nil generateId_Max)
next
  assume "truthy (property b ''name'')"
  then show "\<exists>it. post_item its b = (\<lparr>status = 201, payload = Json_item it\<rparr>, its @ [it]) \<and>
              item_id it = generateId its \<and> name it = property b ''name'' \<and>
              description it =
                (if truthy (property b ''description'') then property b ''description''
                 else JStr ''No description provided'')"
    by (simp add: post_item_def js_or_def Let_def)
qed

text \<open>
  C1 on the seeded store with the body \<open>{"name": "X"}\<close>, and the empty store's next id.
\<close>

theorem create_allocates_next_id_witness:
  "set (map item_id items0) = {1, 2, 3} \<and>
   post_item items0 [(''name'', JStr ''X'')] =
     (\<lparr>status = 201,
       payload = Json_item \<lparr>item_id = 4, name = JStr ''X'', description = JStr ''No description provided''\<rparr>\<rparr>,
      items0 @ [\<lparr>item_id = 4, name = JStr ''X'', description = JStr ''No description provided''\<rparr>])
   \<and> generateId [] = 1"
proof -
  have h: "set (map item_id items0) = {1, 2, 3}" by (auto simp: items0_def)
  show ?thesis
    using create_allocates_next_id [of items0 "''X''" "[]"] create_allocates_next_id [of "[]" "''X''" "[]"] h
    by simp
qed

text \<open>
  C2. After any sequence of requests, \<open>PUT /api/items/{id}\<close> on the id of an item of the
  store answers 200 with the merged item and writes it in the item's place, every other
  item staying as it was. The merged item keeps the id; its name is the body's name when
  that is truthy and the old name otherwise, and the same holds of the description. So a
  body with only a non-empty description replaces the description and nothing else, and a
  body with only a non-empty name replaces the name and nothing else.
\<close>

theorem partial_update_preserves:
  assumes "it \<in> set (run items0 rs)" "parseInt p = Some (item_id it)"
  shows "(\<exists>k<length (run items0 rs). run items0 rs ! k = it \<and>
            put_item (run items0 rs) p b =
              (\<lparr>status = 200, payload = Json_item (updated_item it b)\<rparr>,
               (run items0 rs)[k := updated_item it b]))
    \<and> item_id (updated_item it b) = item_id it
    \<and> name (updated_item it b) =
        (if truthy (property b ''name'') then property b ''name'' else name it)
    \<and> description (updated_item it b) =
        (if truthy (property b ''description'') then property b ''description'' else description it)
    \<and> (map_of b ''name'' = None \<and> map_of b ''description'' = Some (JStr d) \<and> d \<noteq> [] \<longrightarrow>
          updated_item it b = it\<lparr>description := JStr d\<rparr>)
    \<and> (map_of b ''description'' = None \<and> map_of b ''name'' = Some (JStr n) \<and> n \<noteq> [] \<longrightarrow>
          updated_item it b = it\<lparr>name := JStr n\<rparr>)"
proof (intro conjI impI)
  have "distinct (map item_id (run items0 rs))"
    using items0_distinct by (rule run_distinct)
  then show "\<exists>k<length (run items0 rs). run items0 rs ! k = it \<and>
            put_item (run items0 rs) p b =
              (\<lparr>status = 200, payload = Json_item (updated_item it b)\<rparr>,
               (run items0 rs)[k := updated_item it b])"
    using assms by (rule put_item_present)
qed (auto simp: updated_item_def js_or_def property_def)

text \<open>
  C2 on the store that holds the one item \<open>{id: 1, name: "A", description: "D"}\<close>, which
  the seeded store becomes after a PUT on item 1 and the deletion of items 2 and 3, with
  the body \<open>{"description": "D2"}\<close>.
\<close>

theorem partial_update_preserves_witness:
  "run items0 [PUT_item (js_string ''1'') [(''name'', JStr ''A''), (''description'', JStr ''D'')],
               DELETE_item (js_string ''2''), DELETE_item (js_string ''3'')] =
     [\<lparr>item_id = 1, name = JStr ''A'', description = JStr ''D''\<rparr>]
   \<and> put_item [\<lparr>item_id = 1, name = JStr ''A'', description = JStr ''D''\<rparr>] (js_string ''1'')
      [(''description'', JStr ''D2'')] =
     (\<lparr>status = 200, payload = Json_item \<lparr>item_id = 1, name = JStr ''A'', description = JStr ''D2''\<rparr>\<rparr>,
      [\<lparr>item_id = 1, name = JStr ''A'', description = JStr ''D2''\<rparr>])"
proof -
  let ?it = "\<lparr>item_id = 1, name = JStr ''A'', description = JStr ''D''\<rparr>"
  let ?rs = "[PUT_item (js_string ''1'') [(''name'', JStr ''A''), (''description'', JStr ''D'')],
               DELETE_item (js_string ''2''), DELETE_item (js_string ''3'')]"
  have p1: "parseInt (js_string ''1'') = Some 1" and p2: "parseInt (js_string ''2'') = Some 2" and p3: "parseInt (js_string ''3'') = Some 3"
    by (simp_all add: parse_defs)
  have r: "run items0 ?rs = [?it]"
    by (simp add: put_item_def delete_item_def p1 p2 p3 items0_def updated_item_def js_or_def
        property_def Let_def)
  have m: "?it \<in> set (run items0 ?rs)" unfolding r by simp
  have p: "parseInt (js_string ''1'') = Some (item_id ?it)" by (simp add: p1)
  from partial_update_preserves [OF m p, of "[(''description'', JStr ''D2'')]" "''D2''" "[]"]
  show ?thesis unfolding r by simp
qed

text \<open>
  C3, amended. When \<open>parseInt\<close> reads the path parameter as an integer that is the id of
  no item, or as \<open>NaN\<close>, then GET, PUT and DELETE all answer 404 with "Item not found"
  and leave the store as it was. A parameter with no decimal digit at all is read as
  \<open>NaN\<close>, so GET on it answers 404.
\<close>

theorem not_found_symmetry:
  "((parseInt p = None \<or> (\<exists>n. parseInt p = Some n \<and> n \<notin> item_id ` set its)) \<longrightarrow>
      get_item its p = (\<lparr>status = 404, payload = Text ''Item not found''\<rparr>, its) \<and>
      put_item its p b = (\<lparr>status = 404, payload = Text ''Item not found''\<rparr>, its) \<and>
      delete_item its p = (\<lparr>status = 404, payload = Text ''Item not found''\<rparr>, its))
   \<and> ((\<forall>c\<in>set p. \<not> is_digit 10 c) \<longrightarrow>
        parseInt p = None \<and>
        get_item its p = (\<lparr>status = 404, payload = Text ''Item not found''\<rparr>, its))"
proof (intro conjI impI)
  assume "parseInt p = None \<or> (\<exists>n. parseInt p = Some n \<and> n \<notin> item_id ` set its)"
  then have miss: "\<forall>i\<in>set its. \<not> id_eq (parseInt p) i" by auto
  show "get_item its p = (\<lparr>status = 404, payload = Text ''Item not found''\<rparr>, its)"
    using get_item_missing [OF miss] by (simp add: not_found_eq)
  show "put_item its p b = (\<lparr>status = 404, payload = Text ''Item not found''\<rparr>, its)"
    using put_item_missing [OF miss] by (simp add: not_found_eq)
  show "delete_item its p = (\<lparr>status = 404, payload = Text ''Item not found''\<rparr>, its)"
    using delete_item_missing [OF miss] by (simp add: not_found_eq)
next
  assume "\<forall>c\<in>set p. \<not> is_digit 10 c"
  then show nan: "parseInt p = None" by (rule parseInt_no_digit)
  then have "\<forall>i\<in>set its. \<not> id_eq (parseInt p) i" by simp
  then show "get_item its p = (\<lparr>status = 404, payload = Text ''Item not found''\<rparr>, its)"
    using get_item_missing [of its p] by (simp add: not_found_eq)
qed

text \<open>
  C3, amended, on the seeded store with the parameters "7" and "abc".
\<close>

theorem not_found_symmetry_witness:
  "get_item items0 (js_string ''7'') = (\<lparr>status = 404, payload = Text ''Item not found''\<rparr>, items0) \<and>
   put_item items0 (js_string ''7'') [(''name'', JStr ''N'')] = (\<lparr>status = 404, payload = Text ''Item not found''\<rparr>, items0) \<and>
   delete_item items0 (js_string ''7'') = (\<lparr>status = 404, payload = Text ''Item not found''\<rparr>, items0) \<and>
   get_item items0 (js_string ''abc'') = (\<lparr>status = 404, payload = Text ''Item not found''\<rparr>, items0)"
proof -
  have p7: "parseInt (js_string ''7'') = Some 7" by (simp add: parse_defs)
  have "(7::int) \<notin> item_id ` set items0" by (simp add: items0_def)
  with p7 have h7: "parseInt (js_string ''7'') = None \<or> (\<exists>n. parseInt (js_string ''7'') = Some n \<and> n \<notin> item_id ` set items0)"
    by simp
  have nd: "\<forall>c\<in>set (js_string ''abc''). \<not> is_digit 10 c"
    by (simp add: js_string_def is_digit_def digit_val_def)
  have "parseInt (js_string ''abc'') = None"
    using not_found_symmetry [of "(js_string ''abc'')" items0 "[]"] nd by blast
  then have habc: "parseInt (js_string ''abc'') = None \<or> (\<exists>n. parseInt (js_string ''abc'') = Some n \<and> n \<notin> item_id ` set items0)"
    by simp
  show ?thesis
    using not_found_symmetry [of "(js_string ''7'')" items0 "[(''name'', JStr ''N'')]"] h7
      not_found_symmetry [of "(js_string ''abc'')" items0 "[]"] habc
    by blast
qed

text \<open>
  C3 as stated fails: "3abc" is not a numeral, and on the seeded store
  \<open>GET /api/items/3abc\<close> answers 200 with item 3.
\<close>

theorem nonnumeric_id_found:
  "\<not> purely_numeric (js_string ''3abc'') \<and>
   get_item items0 (js_string ''3abc'') =
     (\<lparr>status = 200,
       payload = Json_item \<lparr>item_id = 3, name = JStr ''Item C'', description = JStr ''Description for Item C''\<rparr>\<rparr>,
      items0)"
  by (simp add: purely_numeric_def get_item_def items0_def parse_defs)

text \<open>
  C4. On every store, \<open>POST /api/items\<close> with a body whose name is missing or the empty
  string answers 400 with "Name is required to create an item." and leaves the store as it
  was.
\<close>

theorem create_rejects_missing_name:
  assumes "map_of b ''name'' = None \<or> map_of b ''name'' = Some (JStr [])"
  shows "post_item its b =
    (\<lparr>status = 400, payload = Text ''Name is required to create an item.''\<rparr>, its)"
proof -
  from assms have "\<not> truthy (property b ''name'')"
    by (auto simp: property_def)
  then show ?thesis by (rule post_item_rejected)
qed

text \<open>
  C4 on the seeded store with the bodies \<open>{"description": "d"}\<close>, \<open>{}\<close> and
  \<open>{"name": ""}\<close>.
\<close>

theorem create_rejects_missing_name_witness:
  "post_item items0 [(''description'', JStr ''d'')] =
     (\<lparr>status = 400, payload = Text ''Name is required to create an item.''\<rparr>, items0)
   \<and> post_item items0 [] =
     (\<lparr>status = 400, payload = Text ''Name is required to create an item.''\<rparr>, items0)
   \<and> post_item items0 [(''name'', JStr '''')] =
     (\<lparr>status = 400, payload = Text ''Name is required to create an item.''\<rparr>, items0)"
  using create_rejects_missing_name [of "[(''description'', JStr ''d'')]" items0]
    create_rejects_missing_name [of "[]" items0]
    create_rejects_missing_name [of "[(''name'', JStr '''')]" items0]
  by simp

text \<open>
  C5, amended. On a non-empty store, deleting the item with the largest id \<open>m\<close> answers 204,
  and a create that follows is given one more than the largest remaining id, or 1 when
  nothing remains. That id is \<open>m\<close> again exactly when an item with id \<open>m - 1\<close> is in the
  store, or when nothing remains and \<open>m = 1\<close>.
\<close>

theorem max_delete_then_create:
  assumes "its \<noteq> []" "parseInt p = Some (Max (set (map item_id its)))" "truthy (property b ''name'')"
  shows "\<exists>rest it.
      delete_item its p = (\<lparr>status = 204, payload = Empty\<rparr>, rest) \<and>
      post_item rest b = (\<lparr>status = 201, payload = Json_item it\<rparr>, rest @ [it]) \<and>
      item_id it = (if rest = [] then 1 else 1 + Max (set (map item_id rest))) \<and>
      (item_id it = Max (set (map item_id its)) \<longleftrightarrow>
         Max (set (map item_id its)) - 1 \<in> item_id ` set its \<or>
         (rest = [] \<and> Max (set (map item_id its)) = 1))"
proof -
  let ?m = "Max (set (map item_id its))"
  let ?rest = "filter (\<lambda>i. item_id i \<noteq> ?m) its"
  let ?it = "\<lparr>item_id = generateId ?rest, name = property b ''name'',
      description = js_or (property b ''description'') (JStr ''No description provided'')\<rparr>"
  have "?m \<in> set (map item_id its)" using assms(1) by (intro Max_in) auto
  then have "?m \<in> item_id ` set its" by simp
  from delete_item_found [OF assms(2) this]
  have del: "delete_item its p = (\<lparr>status = 204, payload = Empty\<rparr>, ?rest)" .
  have post: "post_item ?rest b = (\<lparr>status = 201, payload = Json_item ?it\<rparr>, ?rest @ [?it])"
    using post_item_created [OF assms(3), of ?rest] by (simp add: Let_def)
  have gen: "item_id ?it = (if ?rest = [] then 1 else 1 + Max (set (map item_id ?rest)))"
    by (simp add: generateId_Nil generateId_Max)
  have iff: "item_id ?it = ?m \<longleftrightarrow> ?m - 1 \<in> item_id ` set its \<or> (?rest = [] \<and> ?m = 1)"
    using generateId_after_max_delete [OF assms(1)] by simp
  from del post gen iff show ?thesis by blast
qed

text \<open>
  C5, amended, on the seeded store: deleting item 3 and creating gives id 3 again.
\<close>

theorem max_delete_then_create_witness:
  "\<exists>rest it.
      delete_item items0 (js_string ''3'') = (\<lparr>status = 204, payload = Empty\<rparr>, rest) \<and>
      post_item rest [(''name'', JStr ''X'')] = (\<lparr>status = 201, payload = Json_item it\<rparr>, rest @ [it]) \<and>
      item_id it = (if rest = [] then 1 else 1 + Max (set (map item_id rest))) \<and>
      (item_id it = 3 \<longleftrightarrow> 3 - 1 \<in> item_id ` set items0 \<or> (rest = [] \<and> (3::int) = 1))"
proof -
  have m: "Max (set (map item_id items0)) = 3" by (simp add: items0_def)
  have ne: "items0 \<noteq> []" by (simp add: items0_def)
  have p: "parseInt (js_string ''3'') = Some (Max (set (map item_id items0)))"
    unfolding m by (simp add: parse_defs)
  have t: "truthy (property [(''name'', JStr ''X'')] ''name'')" by (simp add: property_def)
  from max_delete_then_create [OF ne p t] show ?thesis unfolding m .
qed

text \<open>
  C5 as stated fails: after \<open>DELETE /api/items/2\<close> the seeded store holds ids 1 and 3;
  deleting item 3, the largest, and creating gives id 2, not 3.
\<close>

theorem max_delete_no_reuse:
  "snd (delete_item items0 (js_string ''2'')) =
     [\<lparr>item_id = 1, name = JStr ''Item A'', description = JStr ''Description for Item A''\<rparr>,
      \<lparr>item_id = 3, name = JStr ''Item C'', description = JStr ''Description for Item C''\<rparr>]
   \<and> Max (set (map item_id (snd (delete_item items0 (js_string ''2''))))) = 3
   \<and> delete_item (snd (delete_item items0 (js_string ''2''))) (js_string ''3'') =
       (\<lparr>status = 204, payload = Empty\<rparr>,
        [\<lparr>item_id = 1, name = JStr ''Item A'', description = JStr ''Description for Item A''\<rparr>])
   \<and> fst (post_item (snd (delete_item (snd (delete_item items0 (js_string ''2''))) (js_string ''3''))) [(''name'', JStr ''X'')]) =
       \<lparr>status = 201,
        payload = Json_item \<lparr>item_id = 2, name = JStr ''X'', description = JStr ''No description provided''\<rparr>\<rparr>"
proof -
  have p2: "parseInt (js_string ''2'') = Some 2" and p3: "parseInt (js_string ''3'') = Some 3"
    by (simp_all add: parse_defs)
  have d2: "snd (delete_item items0 (js_string ''2'')) =
     [\<lparr>item_id = 1, name = JStr ''Item A'', description = JStr ''Description for Item A''\<rparr>,
      \<lparr>item_id = 3, name = JStr ''Item C'', description = JStr ''Description for Item C''\<rparr>]"
    by (simp add: delete_item_def p2 items0_def Let_def)
  show ?thesis
    unfolding d2
    by (simp add: delete_item_def p3 Let_def post_item_def generateId_def property_def js_or_def)
qed

text \<open>
  C6, amended. After any sequence of requests, a create is given an id larger than the id
  of every item then in the store. So the id of a deleted item comes back only once no
  item with that id or a larger one is left.
\<close>

theorem created_id_above_store:
  assumes "truthy (property b ''name'')"
  shows "\<exists>it. handle (run its rs) (POST_item b) =
            (\<lparr>status = 201, payload = Json_item it\<rparr>, run its rs @ [it]) \<and>
          (\<forall>i\<in>set (run its rs). item_id i < item_id it)"
  using post_item_created [OF assms, of "run its rs"] generateId_gt [of _ "run its rs"]
  by (simp add: Let_def)

text \<open>
  C6, amended, on the seeded store after \<open>DELETE /api/items/3\<close>.
\<close>

theorem created_id_above_store_witness:
  "\<exists>it. handle (run items0 [DELETE_item (js_string ''3'')]) (POST_item [(''name'', JStr ''X'')]) =
            (\<lparr>status = 201, payload = Json_item it\<rparr>, run items0 [DELETE_item (js_string ''3'')] @ [it]) \<and>
          (\<forall>i\<in>set (run items0 [DELETE_item (js_string ''3'')]). item_id i < item_id it)"
proof -
  have t: "truthy (property [(''name'', JStr ''X'')] ''name'')" by (simp add: property_def)
  from created_id_above_store [OF t] show ?thesis .
qed

text \<open>
  C6 as stated fails: on the seeded store, \<open>DELETE /api/items/3\<close> removes item 3, and the
  create that follows is given id 3 again.
\<close>

theorem deleted_id_reused:
  "3 \<in> item_id ` set items0
   \<and> fst (handle items0 (DELETE_item (js_string ''3''))) = \<lparr>status = 204, payload = Empty\<rparr>
   \<and> 3 \<notin> item_id ` set (run items0 [DELETE_item (js_string ''3'')])
   \<and> fst (handle (run items0 [DELETE_item (js_string ''3'')]) (POST_item [(''name'', JStr ''X'')])) =
       \<lparr>status = 201,
        payload = Json_item \<lparr>item_id = 3, name = JStr ''X'', description = JStr ''No description provided''\<rparr>\<rparr>"
proof -
  have p3: "parseInt (js_string ''3'') = Some 3" by (simp add: parse_defs)
  have d3: "delete_item items0 (js_string ''3'') = (\<lparr>status = 204, payload = Empty\<rparr>,
     [\<lparr>item_id = 1, name = JStr ''Item A'', description = JStr ''Description for Item A''\<rparr>,
      \<lparr>item_id = 2, name = JStr ''Item B'', description = JStr ''Description for Item B''\<rparr>])"
    by (simp add: delete_item_def p3 items0_def Let_def)
  show ?thesis
    by (simp add: d3) (simp add: items0_def post_item_def generateId_def property_def js_or_def Let_def)
qed

text \<open>
  C7. After every sequence of requests from the seeded store, the ids of the store are
  pairwise distinct.
\<close>

theorem ids_distinct: "distinct (map item_id (run items0 rs))"
  by (rule run_distinct [OF items0_distinct])

text \<open>
  C8. After any sequence of requests, \<open>DELETE /api/items/{id}\<close> on an id of the store
  answers 204 with an empty body and leaves a store with exactly one item fewer; the same
  request once more answers 404 with "Item not found" and changes nothing.
\<close>

theorem delete_removes_one:
  assumes "parseInt p = Some n" "n \<in> item_id ` set (run items0 rs)"
  shows "\<exists>rest. delete_item (run items0 rs) p = (\<lparr>status = 204, payload = Empty\<rparr>, rest) \<and>
           length (run items0 rs) = Suc (length rest) \<and>
           delete_item rest p = (\<lparr>status = 404, payload = Text ''Item not found''\<rparr>, rest)"
proof -
  have "distinct (map item_id (run items0 rs))"
    using items0_distinct by (rule run_distinct)
  then show ?thesis using assms by (rule delete_item_present)
qed

text \<open>
  C8 on the seeded store after a create, with the parameter "4" of the created item.
\<close>

theorem delete_removes_one_witness:
  "\<exists>rest. delete_item (run items0 [POST_item [(''name'', JStr ''X'')]]) (js_string ''4'') =
        (\<lparr>status = 204, payload = Empty\<rparr>, rest) \<and>
      length (run items0 [POST_item [(''name'', JStr ''X'')]]) = Suc (length rest) \<and>
      delete_item rest (js_string ''4'') = (\<lparr>status = 404, payload = Text ''Item not found''\<rparr>, rest)"
proof -
  have p: "parseInt (js_string ''4'') = Some 4" by (simp add: parse_defs)
  have m: "4 \<in> item_id ` set (run items0 [POST_item [(''name'', JStr ''X'')]])"
    by (simp add: post_item_def property_def generateId_def items0_def Let_def)
  from delete_removes_one [OF p m] show ?thesis .
qed

text \<open>
  C9. At process start, \<open>GET /api/items\<close> answers 200 with exactly the three seeded
  items, ids 1, 2 and 3, names "Item A", "Item B", "Item C" and their descriptions.
\<close>

theorem seed_listing:
  "get_items items0 =
    (\<lparr>status = 200,
      payload = Json_items
        [\<lparr>item_id = 1, name = JStr ''Item A'', description = JStr ''Description for Item A''\<rparr>,
         \<lparr>item_id = 2, name = JStr ''Item B'', description = JStr ''Description for Item B''\<rparr>,
         \<lparr>item_id = 3, name = JStr ''Item C'', description = JStr ''Description for Item C''\<rparr>]\<rparr>,
     items0)
   \<and> map item_id items0 = [1, 2, 3] \<and> length items0 = 3"
  by (simp add: get_items_def items0_def)

text \<open>
  C10. "3abc" is not a numeral, and \<open>parseInt\<close> reads it as 3. When the store has an
  item with id 3, GET on "3abc" answers 200 with the first such item, PUT answers 200 and
  merges the body into that item, and DELETE answers 204 and removes the items with id 3.
\<close>

theorem numeric_prefix_id:
  "\<not> purely_numeric (js_string ''3abc'') \<and> parseInt (js_string ''3abc'') = Some 3 \<and>
   (find (\<lambda>i. item_id i = 3) its = Some it \<longrightarrow>
      get_item its (js_string ''3abc'') = (\<lparr>status = 200, payload = Json_item it\<rparr>, its) \<and>
      (\<exists>k<length its. its ! k = it \<and>
         put_item its (js_string ''3abc'') b =
           (\<lparr>status = 200, payload = Json_item (updated_item it b)\<rparr>, its[k := updated_item it b])) \<and>
      delete_item its (js_string ''3abc'') =
        (\<lparr>status = 204, payload = Empty\<rparr>, filter (\<lambda>i. item_id i \<noteq> 3) its))"
proof (intro conjI impI)
  show "\<not> purely_numeric (js_string ''3abc'')"
    by (simp add: purely_numeric_def js_string_def is_digit_def digit_val_def)
  show p: "parseInt (js_string ''3abc'') = Some 3" by (simp add: parse_defs)
  assume f: "find (\<lambda>i. item_id i = 3) its = Some it"
  show "get_item its (js_string ''3abc'') = (\<lparr>status = 200, payload = Json_item it\<rparr>, its)"
    using p f by (rule get_item_found)
  from find_findIndex [OF f] obtain k where
    k: "k < length its" "its ! k = it" "findIndex (\<lambda>i. item_id i = 3) its = Some k"
    by blast
  from put_item_found [OF p k(3), of b] k(1,2)
  show "\<exists>k<length its. its ! k = it \<and>
         put_item its (js_string ''3abc'') b =
           (\<lparr>status = 200, payload = Json_item (updated_item it b)\<rparr>, its[k := updated_item it b])"
    by auto
  from f have "it \<in> set its \<and> item_id it = 3"
    by (auto simp: find_Some_iff)
  then have "3 \<in> item_id ` set its" by force
  with p show "delete_item its (js_string ''3abc'') =
        (\<lparr>status = 204, payload = Empty\<rparr>, filter (\<lambda>i. item_id i \<noteq> 3) its)"
    by (rule delete_item_found)
qed

text \<open>
  C10 on the seeded store.
\<close>

theorem numeric_prefix_id_witness:
  "get_item items0 (js_string ''3abc'') =
     (\<lparr>status = 200,
       payload = Json_item \<lparr>item_id = 3, name = JStr ''Item C'', description = JStr ''Description for Item C''\<rparr>\<rparr>,
      items0)
   \<and> delete_item items0 (js_string ''3abc'') =
        (\<lparr>status = 204, payload = Empty\<rparr>, filter (\<lambda>i. item_id i \<noteq> 3) items0)
   \<and> fst (put_item items0 (js_string ''3abc'') [(''name'', JStr ''N'')]) =
       \<lparr>status = 200,
        payload = Json_item \<lparr>item_id = 3, name = JStr ''N'', description = JStr ''Description for Item C''\<rparr>\<rparr>"
proof -
  let ?c = "\<lparr>item_id = 3, name = JStr ''Item C'', description = JStr ''Description for Item C''\<rparr>"
  have f: "find (\<lambda>i. item_id i = 3) items0 = Some ?c" by (simp add: items0_def)
  have u: "updated_item ?c [(''name'', JStr ''N'')] =
      \<lparr>item_id = 3, name = JStr ''N'', description = JStr ''Description for Item C''\<rparr>"
    by (simp add: updated_item_def js_or_def property_def)
  from numeric_prefix_id [of items0 ?c "[(''name'', JStr ''N'')]"] f u show ?thesis
    by auto
qed

end
